theory Spec2Isabelle
  imports Complex_Main
begin

section \<open>Python values read by the policy predicates\<close>

text \<open>
  Resource properties, configuration values and decoded JSON documents are dynamically
  typed Python values. A float is kept by its exact value: the predicates only compare
  floats with integer literals and test them for truth, and Python does both exactly.
  A string is the list of its characters, a character being a code point below 256:
  strings with other code points are outside the model.
\<close>

datatype pyfloat = Finite rat | PosInf | NegInf | NaN

datatype pyval =
    PNone
  | PBool bool
  | PInt int
  | PFloat pyfloat
  | PStr string
  | PList "pyval list"
  | PDict "(string \<times> pyval) list"

type_synonym pydict = "(string \<times> pyval) list"

text \<open>The exceptions a predicate can leave through.\<close>

datatype exn = TypeError | AttributeError | JSONDecodeError | RecursionError

datatype EnforcementLevel = ADVISORY | MANDATORY

text \<open>
  A message is the f-string it was built from: literal text and interpolated values, in
  order. Interpolation applies Python's \<open>str\<close> to the value, which is left unapplied.
\<close>

datatype frag = Lit string | Val pyval

type_synonym message = "frag list"

type_synonym violation = "message \<times> EnforcementLevel"

text \<open>
  A predicate is called as \<open>validate(args, report_violation, config)\<close>. The callback only
  records its two arguments, so the model passes the violations reported so far in its
  place, and a predicate returns them extended together with the exception it raised,
  if any. What was reported before a raise stays reported.
\<close>

type_synonym outcome = "violation list \<times> exn option"

definition report_violation :: "message \<Rightarrow> EnforcementLevel \<Rightarrow> violation list \<Rightarrow> violation list" where
  "report_violation msg level reported = reported @ [(msg, level)]"

subsection \<open>Dictionary access, truth, comparison\<close>

text \<open>\<open>d.get(key, default)\<close> on a dictionary.\<close>

definition dict_get :: "pydict \<Rightarrow> string \<Rightarrow> pyval \<Rightarrow> pyval" where
  "dict_get d key dflt = (case map_of d key of None \<Rightarrow> dflt | Some v \<Rightarrow> v)"

text \<open>\<open>v.get(key, default)\<close> on any value: only a dictionary has the method.\<close>

fun py_get :: "pyval \<Rightarrow> string \<Rightarrow> pyval \<Rightarrow> exn + pyval" where
  "py_get (PDict d) key dflt = Inr (dict_get d key dflt)"
| "py_get _ key dflt = Inl AttributeError"

text \<open>Truth value of a value, as \<open>if v\<close> and \<open>not v\<close> take it.\<close>

fun truthy :: "pyval \<Rightarrow> bool" where
  "truthy PNone = False"
| "truthy (PBool b) = b"
| "truthy (PInt i) = (i \<noteq> 0)"
| "truthy (PFloat (Finite q)) = (q \<noteq> 0)"
| "truthy (PFloat _) = True"
| "truthy (PStr s) = (s \<noteq> [])"
| "truthy (PList xs) = (xs \<noteq> [])"
| "truthy (PDict d) = (d \<noteq> [])"

text \<open>\<open>v == "literal"\<close>: only an equal string is equal to a string.\<close>

fun eq_str :: "pyval \<Rightarrow> string \<Rightarrow> bool" where
  "eq_str (PStr s) lit = (s = lit)"
| "eq_str _ lit = False"

text \<open>\<open>v == n\<close> for an integer literal: numbers compare by value, \<open>True\<close> is 1, \<open>False\<close> is 0.\<close>

fun eq_int :: "pyval \<Rightarrow> int \<Rightarrow> bool" where
  "eq_int (PBool b) n = ((if b then 1 else 0) = n)"
| "eq_int (PInt i) n = (i = n)"
| "eq_int (PFloat (Finite q)) n = (q = of_int n)"
| "eq_int _ n = False"

text \<open>\<open>v > n\<close> and \<open>n > v\<close> for an integer \<open>n\<close>: defined between numbers, a TypeError otherwise.\<close>

fun float_gt_int :: "pyfloat \<Rightarrow> int \<Rightarrow> bool" where
  "float_gt_int (Finite q) n = (of_int n < q)"
| "float_gt_int PosInf n = True"
| "float_gt_int NegInf n = False"
| "float_gt_int NaN n = False"

fun int_gt_float :: "int \<Rightarrow> pyfloat \<Rightarrow> bool" where
  "int_gt_float n (Finite q) = (q < of_int n)"
| "int_gt_float n PosInf = False"
| "int_gt_float n NegInf = True"
| "int_gt_float n NaN = False"

fun py_gt_int :: "pyval \<Rightarrow> int \<Rightarrow> exn + bool" where
  "py_gt_int (PBool b) n = Inr (n < (if b then 1 else 0))"
| "py_gt_int (PInt i) n = Inr (n < i)"
| "py_gt_int (PFloat f) n = Inr (float_gt_int f n)"
| "py_gt_int _ n = Inl TypeError"

fun int_gt_py :: "int \<Rightarrow> pyval \<Rightarrow> exn + bool" where
  "int_gt_py n (PBool b) = Inr ((if b then 1 else 0) < n)"
| "int_gt_py n (PInt i) = Inr (i < n)"
| "int_gt_py n (PFloat f) = Inr (int_gt_float n f)"
| "int_gt_py n _ = Inl TypeError"

text \<open>\<open>v < n\<close> for an integer literal \<open>n\<close>.\<close>

fun float_lt_int :: "pyfloat \<Rightarrow> int \<Rightarrow> bool" where
  "float_lt_int (Finite q) n = (q < of_int n)"
| "float_lt_int PosInf n = False"
| "float_lt_int NegInf n = True"
| "float_lt_int NaN n = False"

fun py_lt_int :: "pyval \<Rightarrow> int \<Rightarrow> exn + bool" where
  "py_lt_int (PBool b) n = Inr ((if b then 1 else 0) < n)"
| "py_lt_int (PInt i) n = Inr (i < n)"
| "py_lt_int (PFloat f) n = Inr (float_lt_int f n)"
| "py_lt_int _ n = Inl TypeError"

text \<open>
  \<open>v.upper()\<close>, a string method. The upper case of a character is given for the ASCII
  letters, the only characters whose upper case is a letter of \<open>HTTP\<close>, with which the
  rules compare the result; no other character is changed.
\<close>

definition upper_char :: "char \<Rightarrow> char" where
  "upper_char c =
     (case map_of (zip ''abcdefghijklmnopqrstuvwxyz'' ''ABCDEFGHIJKLMNOPQRSTUVWXYZ'') c of
        None \<Rightarrow> c | Some u \<Rightarrow> u)"

text \<open>
  The lower case of a character, as \<open>str.lower\<close> gives it below code point 256: the
  ASCII capitals and the capitals from U+00C0 to U+00DE (but the sign U+00D7) move up
  by 32.
\<close>

definition lower_char :: "char \<Rightarrow> char" where
  "lower_char c =
     (case map_of
        (zip (''ABCDEFGHIJKLMNOPQRSTUVWXYZ'' @
              [CHR 0xC0, CHR 0xC1, CHR 0xC2, CHR 0xC3, CHR 0xC4, CHR 0xC5, CHR 0xC6,
              CHR 0xC7, CHR 0xC8, CHR 0xC9, CHR 0xCA, CHR 0xCB, CHR 0xCC, CHR 0xCD,
              CHR 0xCE, CHR 0xCF, CHR 0xD0, CHR 0xD1, CHR 0xD2, CHR 0xD3, CHR 0xD4,
              CHR 0xD5, CHR 0xD6, CHR 0xD8, CHR 0xD9, CHR 0xDA, CHR 0xDB, CHR 0xDC,
              CHR 0xDD, CHR 0xDE])
             (''abcdefghijklmnopqrstuvwxyz'' @
              [CHR 0xE0, CHR 0xE1, CHR 0xE2, CHR 0xE3, CHR 0xE4, CHR 0xE5, CHR 0xE6,
              CHR 0xE7, CHR 0xE8, CHR 0xE9, CHR 0xEA, CHR 0xEB, CHR 0xEC, CHR 0xED,
              CHR 0xEE, CHR 0xEF, CHR 0xF0, CHR 0xF1, CHR 0xF2, CHR 0xF3, CHR 0xF4,
              CHR 0xF5, CHR 0xF6, CHR 0xF8, CHR 0xF9, CHR 0xFA, CHR 0xFB, CHR 0xFC,
              CHR 0xFD, CHR 0xFE])) c of
        None \<Rightarrow> c | Some l \<Rightarrow> l)"

fun py_upper :: "pyval \<Rightarrow> exn + string" where
  "py_upper (PStr s) = Inr (map upper_char s)"
| "py_upper _ = Inl AttributeError"

text \<open>\<open>v.lower()\<close>, a string method.\<close>

fun py_lower :: "pyval \<Rightarrow> exn + string" where
  "py_lower (PStr s) = Inr (map lower_char s)"
| "py_lower _ = Inl AttributeError"

text \<open>\<open>sep.join(parts)\<close>.\<close>

fun join :: "string \<Rightarrow> string list \<Rightarrow> string" where
  "join sep [] = []"
| "join sep [p] = p"
| "join sep (p # q # ps) = p @ sep @ join sep (q # ps)"

text \<open>
  Iterating a value with \<open>for x in v\<close>: a list gives its elements, a string its
  characters, a dictionary its keys; nothing else here is iterable.
\<close>

fun py_iter :: "pyval \<Rightarrow> exn + pyval list" where
  "py_iter (PList xs) = Inr xs"
| "py_iter (PStr s) = Inr (map (\<lambda>c. PStr [c]) s)"
| "py_iter (PDict d) = Inr (map (\<lambda>(k, v). PStr k) d)"
| "py_iter _ = Inl TypeError"

text \<open>\<open>v.items()\<close>: a dictionary method.\<close>

fun py_items :: "pyval \<Rightarrow> exn + (string \<times> pyval) list" where
  "py_items (PDict d) = Inr d"
| "py_items _ = Inl AttributeError"

text \<open>\<open>isinstance(v, str)\<close> and \<open>isinstance(v, dict)\<close>.\<close>

fun is_str :: "pyval \<Rightarrow> bool" where
  "is_str (PStr s) = True"
| "is_str _ = False"


text \<open>\<open>sub in s\<close> between strings.\<close>

fun is_prefix :: "string \<Rightarrow> string \<Rightarrow> bool" where
  "is_prefix [] s = True"
| "is_prefix (c # cs) [] = False"
| "is_prefix (c # cs) (d # ds) = (c = d \<and> is_prefix cs ds)"

fun str_contains :: "string \<Rightarrow> string \<Rightarrow> bool" where
  "str_contains sub [] = is_prefix sub []"
| "str_contains sub (c # cs) = (is_prefix sub (c # cs) \<or> str_contains sub cs)"

text \<open>
  The value of an expression that may raise, inside a predicate: the exception leaves
  the predicate with what it has reported so far.
\<close>

definition or_raise :: "exn + 'a \<Rightarrow> violation list \<Rightarrow> ('a \<Rightarrow> outcome) \<Rightarrow> outcome" where
  "or_raise x reported k = (case x of Inl e \<Rightarrow> (reported, Some e) | Inr v \<Rightarrow> k v)"

subsection \<open>Regular expressions\<close>

text \<open>
  The patterns of the secrets rule use literals, character classes, alternation, an
  optional class and a bounded-below repetition. \<open>re.search\<close> succeeds when some
  substring of the subject is in the pattern's language; matching is by derivatives.
  Under the flag \<open>(?i)\<close> a letter of a pattern matches its lower and its upper case;
  below code point 256 it matches no other character.
\<close>

datatype regex =
    Nothing
  | Eps
  | Sym "char list"
  | Seq regex regex
  | Alt regex regex
  | Opt regex
  | AtLeast nat regex

fun nullable :: "regex \<Rightarrow> bool" where
  "nullable Nothing = False"
| "nullable Eps = True"
| "nullable (Sym cs) = False"
| "nullable (Seq r s) = (nullable r \<and> nullable s)"
| "nullable (Alt r s) = (nullable r \<or> nullable s)"
| "nullable (Opt r) = True"
| "nullable (AtLeast n r) = (n = 0 \<or> nullable r)"

fun deriv :: "char \<Rightarrow> regex \<Rightarrow> regex" where
  "deriv c Nothing = Nothing"
| "deriv c Eps = Nothing"
| "deriv c (Sym cs) = (if c \<in> set cs then Eps else Nothing)"
| "deriv c (Seq r s) =
     (if nullable r then Alt (Seq (deriv c r) s) (deriv c s) else Seq (deriv c r) s)"
| "deriv c (Alt r s) = Alt (deriv c r) (deriv c s)"
| "deriv c (Opt r) = deriv c r"
| "deriv c (AtLeast n r) = Seq (deriv c r) (AtLeast (n - 1) r)"

fun match_prefix :: "regex \<Rightarrow> string \<Rightarrow> bool" where
  "match_prefix r [] = nullable r"
| "match_prefix r (c # cs) = (nullable r \<or> match_prefix (deriv c r) cs)"

fun re_search :: "regex \<Rightarrow> string \<Rightarrow> bool" where
  "re_search r [] = match_prefix r []"
| "re_search r (c # cs) = (match_prefix r (c # cs) \<or> re_search r cs)"

text \<open>A literal, and a literal under the flag \<open>(?i)\<close>.\<close>

fun lit :: "string \<Rightarrow> regex" where
  "lit [] = Eps"
| "lit (c # cs) = Seq (Sym [c]) (lit cs)"

fun ci :: "string \<Rightarrow> regex" where
  "ci [] = Eps"
| "ci (c # cs) = Seq (Sym [lower_char c, upper_char c]) (ci cs)"

section \<open>Descriptors\<close>

text \<open>
  The argument of a resource predicate: \<open>args.resource_type\<close> is an attribute,
  \<open>args.get(name, default)\<close> looks up the other entries, of which the predicates read
  \<open>props\<close>.
\<close>

record resource_args =
  resource_type :: string
  entries :: pydict

definition args_get :: "resource_args \<Rightarrow> string \<Rightarrow> pyval \<Rightarrow> pyval" where
  "args_get args key dflt = dict_get (entries args) key dflt"

text \<open>The argument of a stack predicate: \<open>args.resources\<close>.\<close>

record stack_args =
  resources :: "resource_args list"

section \<open>The policy pack of \<open>policies/__main__.py\<close>\<close>

definition get_enforcement_level :: "pydict \<Rightarrow> EnforcementLevel" where
  "get_enforcement_level config =
     (let level = dict_get config ''enforcement-level'' (PStr ''mandatory'')
      in if eq_str level ''mandatory'' then MANDATORY else ADVISORY)"

subsection \<open>S3 rules\<close>

definition s3_bucket_public_access_block :: "resource_args \<Rightarrow> violation list \<Rightarrow> pydict \<Rightarrow> outcome" where
  "s3_bucket_public_access_block args reported config =
     (if resource_type args = ''aws:s3/bucketPublicAccessBlock:BucketPublicAccessBlock'' then
        let props = args_get args ''props'' (PDict []) in
        or_raise (py_get props ''blockPublicAcls'' (PBool True)) reported (\<lambda>blockPublicAcls.
        or_raise (py_get props ''blockPublicPolicy'' (PBool True)) reported (\<lambda>blockPublicPolicy.
        or_raise (py_get props ''ignorePublicAcls'' (PBool True)) reported (\<lambda>ignorePublicAcls.
        or_raise (py_get props ''restrictPublicBuckets'' (PBool True)) reported (\<lambda>restrictPublicBuckets.
        let violations = [];
            violations = (if \<not> truthy blockPublicAcls
                          then violations @ [''blockPublicAcls should be true''] else violations);
            violations = (if \<not> truthy blockPublicPolicy
                          then violations @ [''blockPublicPolicy should be true''] else violations);
            violations = (if \<not> truthy ignorePublicAcls
                          then violations @ [''ignorePublicAcls should be true''] else violations);
            violations = (if \<not> truthy restrictPublicBuckets
                          then violations @ [''restrictPublicBuckets should be true''] else violations)
        in if violations \<noteq> [] then
             (report_violation
                [Lit ''S3 bucket public access block violations: '', Val (PStr (join '', '' violations))]
                (get_enforcement_level config) reported, None)
           else (reported, None)))))
      else (reported, None))"

definition s3_bucket_versioning_enabled :: "resource_args \<Rightarrow> violation list \<Rightarrow> pydict \<Rightarrow> outcome" where
  "s3_bucket_versioning_enabled args reported config =
     (if resource_type args = ''aws:s3/bucketVersioningV2:BucketVersioningV2'' then
        let props = args_get args ''props'' (PDict []) in
        or_raise (py_get props ''versioningConfiguration'' (PDict [])) reported (\<lambda>versioning_config.
        or_raise (py_get versioning_config ''status'' PNone) reported (\<lambda>status.
        if \<not> eq_str status ''Enabled'' then
          (report_violation
             [Lit ''S3 bucket should have versioning enabled for data protection'']
             (get_enforcement_level config) reported, None)
        else (reported, None)))
      else (reported, None))"

fun s3_bucket_encryption_required_loop :: "pyval list \<Rightarrow> violation list \<Rightarrow> pydict \<Rightarrow> outcome" where
  "s3_bucket_encryption_required_loop [] reported config = (reported, None)"
| "s3_bucket_encryption_required_loop (rule # rules) reported config =
     (case py_get rule ''applyServerSideEncryptionByDefault'' (PDict []) of
        Inl e \<Rightarrow> (reported, Some e)
      | Inr apply_config \<Rightarrow>
          (case py_get apply_config ''sseAlgorithm'' PNone of
             Inl e \<Rightarrow> (reported, Some e)
           | Inr sseAlgorithm \<Rightarrow>
               s3_bucket_encryption_required_loop rules
                 (if \<not> truthy sseAlgorithm then
                    report_violation
                      [Lit ''S3 bucket encryption rule must specify SSE algorithm'']
                      (get_enforcement_level config) reported
                  else reported)
                 config))"

definition s3_bucket_encryption_required :: "resource_args \<Rightarrow> violation list \<Rightarrow> pydict \<Rightarrow> outcome" where
  "s3_bucket_encryption_required args reported config =
     (if \<not> truthy (dict_get config ''require-encryption'' (PBool True)) then (reported, None)
      else if resource_type args =
           ''aws:s3/bucketServerSideEncryptionConfigurationV2:BucketServerSideEncryptionConfigurationV2'' then
        let props = args_get args ''props'' (PDict []) in
        or_raise (py_get props ''rules'' (PList [])) reported (\<lambda>rules.
        if \<not> truthy rules then
          (report_violation
             [Lit ''S3 bucket must have server-side encryption configured'']
             (get_enforcement_level config) reported, None)
        else
          or_raise (py_iter rules) reported (\<lambda>items.
          s3_bucket_encryption_required_loop items reported config))
      else (reported, None))"

subsection \<open>IAM rules\<close>

text \<open>
  The inner loop over the actions of one statement; neither the comparison nor the
  substring test can raise.
\<close>

fun iam_policy_no_wildcard_actions_actions :: "pyval list \<Rightarrow> violation list \<Rightarrow> violation list" where
  "iam_policy_no_wildcard_actions_actions [] reported = reported"
| "iam_policy_no_wildcard_actions_actions (action # actions) reported =
     iam_policy_no_wildcard_actions_actions actions
       (if eq_str action ''*'' \<or> (is_str action \<and> (case action of PStr a \<Rightarrow> str_contains ''*:*'' a | _ \<Rightarrow> False))
        then report_violation
               [Lit ''IAM policy contains overly permissive action: '', Val action] MANDATORY reported
        else reported)"

fun iam_policy_no_wildcard_actions_statements :: "pyval list \<Rightarrow> violation list \<Rightarrow> outcome" where
  "iam_policy_no_wildcard_actions_statements [] reported = (reported, None)"
| "iam_policy_no_wildcard_actions_statements (statement # statements) reported =
     (case py_get statement ''Action'' (PList []) of
        Inl e \<Rightarrow> (reported, Some e)
      | Inr actions \<Rightarrow>
          iam_policy_no_wildcard_actions_statements statements
            (iam_policy_no_wildcard_actions_actions
               (case actions of PList xs \<Rightarrow> xs | _ \<Rightarrow> [actions]) reported))"

text \<open>
  \<open>json.loads\<close> belongs to Python's standard library; the rule takes it as the
  parameter \<open>loads\<close>. Of the exceptions it raises the rule catches JSONDecodeError only.
\<close>

definition iam_policy_no_wildcard_actions ::
  "(string \<Rightarrow> exn + pyval) \<Rightarrow> resource_args \<Rightarrow> violation list \<Rightarrow> pydict \<Rightarrow> outcome" where
  "iam_policy_no_wildcard_actions loads args reported config =
     (if resource_type args = ''aws:iam/policy:Policy'' then
        let props = args_get args ''props'' (PDict []) in
        or_raise (py_get props ''policy'' PNone) reported (\<lambda>policy_doc.
        if truthy policy_doc \<and> is_str policy_doc then
          (case loads (case policy_doc of PStr s \<Rightarrow> s | _ \<Rightarrow> []) of
             Inl e \<Rightarrow>
               if e = JSONDecodeError then
                 (report_violation [Lit ''IAM policy document is not valid JSON''] MANDATORY reported,
                  None)
               else (reported, Some e)
           | Inr policy \<Rightarrow>
               or_raise (py_get policy ''Statement'' (PList [])) reported (\<lambda>statements.
               iam_policy_no_wildcard_actions_statements
                 (case statements of PList xs \<Rightarrow> xs | _ \<Rightarrow> [statements]) reported))
        else (reported, None))
      else (reported, None))"

definition iam_role_no_inline_policies :: "resource_args \<Rightarrow> violation list \<Rightarrow> pydict \<Rightarrow> outcome" where
  "iam_role_no_inline_policies args reported config =
     (if resource_type args = ''aws:iam/role:Role'' then
        let props = args_get args ''props'' (PDict []) in
        or_raise (py_get props ''inlinePolicies'' (PList [])) reported (\<lambda>inline_policies.
        if truthy inline_policies then
          (report_violation
             [Lit ''IAM role should use managed policies instead of inline policies for better governance'']
             (get_enforcement_level config) reported, None)
        else (reported, None))
      else (reported, None))"

subsection \<open>Lambda rules\<close>

definition secret_patterns :: "regex list" where
  "secret_patterns =
     [Alt (ci ''password'') (Alt (ci ''pwd'') (ci ''pass'')),
      Alt (ci ''secret'') (Alt (ci ''key'') (ci ''token'')),
      Seq (ci ''api'') (Seq (Opt (Sym ''_-'')) (ci ''key'')),
      Seq (lit ''sk-'')
        (AtLeast 20 (Sym ''abcdefghijklmnopqrstuvwxyzABCDEFGHIJKLMNOPQRSTUVWXYZ0123456789'')),
      Seq (ci ''access'') (Seq (Opt (Sym ''_-'')) (ci ''key'')),
      Seq (ci ''private'') (Seq (Opt (Sym ''_-'')) (ci ''key''))]"

text \<open>
  \<open>char.isdigit()\<close> and \<open>char.isalpha()\<close> as Python has them below code point 256: the
  digits are the ASCII digits and the superscripts U+00B2, U+00B3 and U+00B9; the
  letters are the ASCII letters, U+00AA, U+00B5, U+00BA and U+00C0 to U+00FF without the
  signs U+00D7 and U+00F7.
\<close>

definition isdigit :: "char \<Rightarrow> bool" where
  "isdigit c = (c \<in> set (''0123456789'' @ [CHR 0xB2, CHR 0xB3, CHR 0xB9]))"

definition isalpha :: "char \<Rightarrow> bool" where
  "isalpha c =
     (c \<in> set (''abcdefghijklmnopqrstuvwxyzABCDEFGHIJKLMNOPQRSTUVWXYZ'' @
               [CHR 0xAA, CHR 0xB5, CHR 0xBA, CHR 0xC0, CHR 0xC1, CHR 0xC2, CHR 0xC3,
               CHR 0xC4, CHR 0xC5, CHR 0xC6, CHR 0xC7, CHR 0xC8, CHR 0xC9, CHR 0xCA,
               CHR 0xCB, CHR 0xCC, CHR 0xCD, CHR 0xCE, CHR 0xCF, CHR 0xD0, CHR 0xD1,
               CHR 0xD2, CHR 0xD3, CHR 0xD4, CHR 0xD5, CHR 0xD6, CHR 0xD8, CHR 0xD9,
               CHR 0xDA, CHR 0xDB, CHR 0xDC, CHR 0xDD, CHR 0xDE, CHR 0xDF, CHR 0xE0,
               CHR 0xE1, CHR 0xE2, CHR 0xE3, CHR 0xE4, CHR 0xE5, CHR 0xE6, CHR 0xE7,
               CHR 0xE8, CHR 0xE9, CHR 0xEA, CHR 0xEB, CHR 0xEC, CHR 0xED, CHR 0xEE,
               CHR 0xEF, CHR 0xF0, CHR 0xF1, CHR 0xF2, CHR 0xF3, CHR 0xF4, CHR 0xF5,
               CHR 0xF6, CHR 0xF8, CHR 0xF9, CHR 0xFA, CHR 0xFB, CHR 0xFC, CHR 0xFD,
               CHR 0xFE, CHR 0xFF]))"

text \<open>The loop over the patterns on the variable's name: it stops at the first match.\<close>

fun lambda_no_hardcoded_secrets_name :: "regex list \<Rightarrow> string \<Rightarrow> violation list \<Rightarrow> violation list" where
  "lambda_no_hardcoded_secrets_name [] var_name reported = reported"
| "lambda_no_hardcoded_secrets_name (pattern # patterns) var_name reported =
     (if re_search pattern var_name then
        report_violation
          [Lit (''Lambda function environment variable '' @ [CHR 0x27]), Val (PStr var_name),
           Lit (CHR 0x27 # '' appears to contain a secret. Use AWS Secrets Manager or Parameter Store instead.'')]
          MANDATORY reported
      else lambda_no_hardcoded_secrets_name patterns var_name reported)"

text \<open>The loop over the first three patterns on the lowered name: it reports every match.\<close>

fun lambda_no_hardcoded_secrets_value :: "regex list \<Rightarrow> string \<Rightarrow> violation list \<Rightarrow> violation list" where
  "lambda_no_hardcoded_secrets_value [] var_name reported = reported"
| "lambda_no_hardcoded_secrets_value (pattern # patterns) var_name reported =
     lambda_no_hardcoded_secrets_value patterns var_name
       (if re_search pattern (map lower_char var_name) then
          report_violation
            [Lit (''Lambda function environment variable '' @ [CHR 0x27]), Val (PStr var_name),
             Lit (CHR 0x27 # '' appears to contain a hardcoded secret'')]
            MANDATORY reported
        else reported)"

fun lambda_no_hardcoded_secrets_loop :: "(string \<times> pyval) list \<Rightarrow> violation list \<Rightarrow> violation list" where
  "lambda_no_hardcoded_secrets_loop [] reported = reported"
| "lambda_no_hardcoded_secrets_loop ((var_name, var_value) # variables) reported =
     lambda_no_hardcoded_secrets_loop variables
       (case var_value of
          PStr s \<Rightarrow>
            let reported = lambda_no_hardcoded_secrets_name secret_patterns var_name reported
            in if length s > 10 \<and> list_ex isdigit s \<and> list_ex isalpha s then
                 lambda_no_hardcoded_secrets_value (take 3 secret_patterns) var_name reported
               else reported
        | _ \<Rightarrow> reported)"

definition lambda_no_hardcoded_secrets :: "resource_args \<Rightarrow> violation list \<Rightarrow> pydict \<Rightarrow> outcome" where
  "lambda_no_hardcoded_secrets args reported config =
     (if resource_type args = ''aws:lambda/function:Function'' then
        let props = args_get args ''props'' (PDict []) in
        or_raise (py_get props ''environment'' (PDict [])) reported (\<lambda>environment.
        or_raise (py_get environment ''variables'' (PDict [])) reported (\<lambda>variables.
        or_raise (py_items variables) reported (\<lambda>items.
        (lambda_no_hardcoded_secrets_loop items reported, None))))
      else (reported, None))"

definition lambda_reasonable_timeout :: "resource_args \<Rightarrow> violation list \<Rightarrow> pydict \<Rightarrow> outcome" where
  "lambda_reasonable_timeout args reported config =
     (if resource_type args = ''aws:lambda/function:Function'' then
        let props = args_get args ''props'' (PDict []) in
        or_raise (py_get props ''timeout'' (PInt 3)) reported (\<lambda>timeout.
        or_raise (py_gt_int timeout 300) reported (\<lambda>excessive.
        if excessive then
          (report_violation
             [Lit ''Lambda function timeout ('', Val timeout,
              Lit ''s) is excessive. Consider if this is necessary.'']
             (get_enforcement_level config) reported, None)
        else (reported, None)))
      else (reported, None))"

subsection \<open>Load balancer rule\<close>

definition alb_listener_https_only :: "resource_args \<Rightarrow> violation list \<Rightarrow> pydict \<Rightarrow> outcome" where
  "alb_listener_https_only args reported config =
     (if \<not> truthy (dict_get config ''require-https'' (PBool True)) then (reported, None)
      else if resource_type args = ''aws:lb/listener:Listener'' then
        let props = args_get args ''props'' (PDict []) in
        or_raise (py_get props ''protocol'' (PStr [])) reported (\<lambda>protocol.
        or_raise (py_get props ''port'' (PInt 80)) reported (\<lambda>port.
        or_raise (py_upper protocol) reported (\<lambda>upper.
        if upper = ''HTTP'' \<and> \<not> eq_int port 80 then
          (report_violation
             [Lit ''Load balancer listener should use HTTPS instead of HTTP on port '', Val port]
             (get_enforcement_level config) reported, None)
        else if upper = ''HTTP'' \<and> eq_int port 80 then
          (report_violation
             [Lit ''Load balancer listener uses HTTP on port 80. Consider implementing HTTPS redirect.'']
             ADVISORY reported, None)
        else (reported, None))))
      else (reported, None))"

subsection \<open>Security group rule\<close>

fun security_group_no_unrestricted_ingress_loop :: "pyval list \<Rightarrow> violation list \<Rightarrow> pydict \<Rightarrow> outcome" where
  "security_group_no_unrestricted_ingress_loop [] reported config = (reported, None)"
| "security_group_no_unrestricted_ingress_loop (rule # rules) reported config =
     (case py_get rule ''cidrIpv4'' (PStr []) of
        Inl e \<Rightarrow> (reported, Some e)
      | Inr cidr_ipv4 \<Rightarrow>
     (case py_get rule ''fromPort'' (PInt 0) of
        Inl e \<Rightarrow> (reported, Some e)
      | Inr from_port \<Rightarrow>
     (case py_get rule ''toPort'' (PInt 0) of
        Inl e \<Rightarrow> (reported, Some e)
      | Inr to_port \<Rightarrow>
          security_group_no_unrestricted_ingress_loop rules
            (if eq_str cidr_ipv4 ''0.0.0.0/0'' then
               if eq_int from_port 0 \<and> eq_int to_port 65535 then
                 report_violation
                   [Lit ''Security group allows unrestricted access on all ports from anywhere'']
                   MANDATORY reported
               else if \<not> eq_int from_port 80 \<and> \<not> eq_int from_port 443 then
                 report_violation
                   [Lit ''Security group allows unrestricted access on port '', Val from_port,
                    Lit '' from anywhere'']
                   (get_enforcement_level config) reported
               else reported
             else reported)
            config)))"

definition security_group_no_unrestricted_ingress :: "resource_args \<Rightarrow> violation list \<Rightarrow> pydict \<Rightarrow> outcome" where
  "security_group_no_unrestricted_ingress args reported config =
     (if resource_type args = ''aws:ec2/securityGroup:SecurityGroup'' then
        let props = args_get args ''props'' (PDict []) in
        or_raise (py_get props ''ingressRules'' (PList [])) reported (\<lambda>ingress_rules.
        or_raise (py_iter ingress_rules) reported (\<lambda>items.
        security_group_no_unrestricted_ingress_loop items reported config))
      else (reported, None))"

subsection \<open>RDS rules\<close>

definition rds_instance_encrypted_storage :: "resource_args \<Rightarrow> violation list \<Rightarrow> pydict \<Rightarrow> outcome" where
  "rds_instance_encrypted_storage args reported config =
     (if \<not> truthy (dict_get config ''require-encryption'' (PBool True)) then (reported, None)
      else if resource_type args = ''aws:rds/instance:Instance'' then
        let props = args_get args ''props'' (PDict []) in
        or_raise (py_get props ''storageEncrypted'' (PBool False)) reported (\<lambda>storage_encrypted.
        if \<not> truthy storage_encrypted then
          (report_violation
             [Lit ''RDS instance should have encrypted storage enabled'']
             (get_enforcement_level config) reported, None)
        else (reported, None))
      else (reported, None))"

definition rds_instance_not_publicly_accessible :: "resource_args \<Rightarrow> violation list \<Rightarrow> pydict \<Rightarrow> outcome" where
  "rds_instance_not_publicly_accessible args reported config =
     (if resource_type args = ''aws:rds/instance:Instance'' then
        let props = args_get args ''props'' (PDict []) in
        or_raise (py_get props ''publiclyAccessible'' (PBool False)) reported (\<lambda>publicly_accessible.
        if truthy publicly_accessible then
          (report_violation
             [Lit ''RDS instance should not be publicly accessible'']
             MANDATORY reported, None)
        else (reported, None))
      else (reported, None))"

definition rds_instance_backup_retention :: "resource_args \<Rightarrow> violation list \<Rightarrow> pydict \<Rightarrow> outcome" where
  "rds_instance_backup_retention args reported config =
     (if resource_type args = ''aws:rds/instance:Instance'' then
        let props = args_get args ''props'' (PDict []) in
        or_raise (py_get props ''backupRetentionPeriod'' (PInt 0)) reported (\<lambda>backup_retention.
        if eq_int backup_retention 0 then
          (report_violation
             [Lit ''RDS instance should have backup retention period configured (non-zero)'']
             (get_enforcement_level config) reported, None)
        else (reported, None))
      else (reported, None))"

subsection \<open>Stack rule\<close>

definition s3_bucket_count_limit :: "stack_args \<Rightarrow> violation list \<Rightarrow> pydict \<Rightarrow> outcome" where
  "s3_bucket_count_limit args reported config =
     (let max_buckets = dict_get config ''max-s3-buckets'' (PInt 5);
          s3_buckets = filter (\<lambda>r. resource_type r = ''aws:s3/bucketV2:BucketV2'') (resources args)
      in or_raise (int_gt_py (int (length s3_buckets)) max_buckets) reported (\<lambda>exceeds.
         if exceeds then
           (report_violation
              [Lit ''Stack contains '', Val (PInt (int (length s3_buckets))),
               Lit '' S3 buckets, which exceeds the limit of '', Val max_buckets]
              (get_enforcement_level config) reported, None)
         else (reported, None)))"

subsection \<open>The pack\<close>

datatype schema_type = SchemaString | SchemaNumber | SchemaBoolean

record config_property =
  property_type :: schema_type
  property_enum :: "pyval list option"
  property_default :: pyval

definition config_schema :: "(string \<times> config_property) list" where
  "config_schema =
     [(''enforcement-level'',
         \<lparr>property_type = SchemaString,
          property_enum = Some [PStr ''advisory'', PStr ''mandatory''],
          property_default = PStr ''mandatory''\<rparr>),
      (''max-s3-buckets'',
         \<lparr>property_type = SchemaNumber, property_enum = None, property_default = PInt 5\<rparr>),
      (''require-https'',
         \<lparr>property_type = SchemaBoolean, property_enum = None, property_default = PBool True\<rparr>),
      (''require-encryption'',
         \<lparr>property_type = SchemaBoolean, property_enum = None, property_default = PBool True\<rparr>)]"

datatype policy =
    ResourceValidationPolicy string string "resource_args \<Rightarrow> violation list \<Rightarrow> pydict \<Rightarrow> outcome"
  | StackValidationPolicy string string "stack_args \<Rightarrow> violation list \<Rightarrow> pydict \<Rightarrow> outcome"

record policy_pack =
  pack_name :: string
  pack_config_schema :: "(string \<times> config_property) list"
  pack_policies :: "policy list"

definition policies :: "(string \<Rightarrow> exn + pyval) \<Rightarrow> policy_pack" where
  "policies loads =
     \<lparr>pack_name = ''pulumi-lab-policies'',
      pack_config_schema = config_schema,
      pack_policies =
        [ResourceValidationPolicy ''s3-bucket-public-access-block''
           ''S3 buckets should have public access blocked''
           s3_bucket_public_access_block,
         ResourceValidationPolicy ''s3-bucket-versioning-enabled''
           ''S3 buckets should have versioning enabled''
           s3_bucket_versioning_enabled,
         ResourceValidationPolicy ''s3-bucket-encryption-required''
           ''S3 buckets should have server-side encryption''
           s3_bucket_encryption_required,
         ResourceValidationPolicy ''iam-policy-no-wildcard-actions''
           ''IAM policies should not use wildcard actions''
           (iam_policy_no_wildcard_actions loads),
         ResourceValidationPolicy ''iam-role-no-inline-policies''
           ''IAM roles should use managed policies''
           iam_role_no_inline_policies,
         ResourceValidationPolicy ''lambda-no-hardcoded-secrets''
           ''Lambda functions should not have hardcoded secrets''
           lambda_no_hardcoded_secrets,
         ResourceValidationPolicy ''lambda-reasonable-timeout''
           ''Lambda functions should have reasonable timeouts''
           lambda_reasonable_timeout,
         ResourceValidationPolicy ''alb-listener-https-only''
           ''ALB listeners should use HTTPS''
           alb_listener_https_only,
         ResourceValidationPolicy ''security-group-no-unrestricted-ingress''
           ''Security groups should not allow unrestricted access''
           security_group_no_unrestricted_ingress,
         ResourceValidationPolicy ''rds-instance-encrypted-storage''
           ''RDS instances should have encrypted storage''
           rds_instance_encrypted_storage,
         ResourceValidationPolicy ''rds-instance-not-publicly-accessible''
           ''RDS instances should not be publicly accessible''
           rds_instance_not_publicly_accessible,
         ResourceValidationPolicy ''rds-instance-backup-retention''
           ''RDS instances should have backup retention''
           rds_instance_backup_retention,
         StackValidationPolicy ''s3-bucket-count-limit''
           ''Limit number of S3 buckets per stack''
           s3_bucket_count_limit]\<rparr>"

section \<open>The compliance rules of \<open>compliance-policies/__main__.py\<close>\<close>

definition iso27001_s3_encryption_at_rest :: "resource_args \<Rightarrow> violation list \<Rightarrow> pydict \<Rightarrow> outcome" where
  "iso27001_s3_encryption_at_rest args reported config =
     (if resource_type args = ''aws:s3/bucketV2:BucketV2'' then
        (report_violation
           [Lit ''ISO 27001 Compliance: S3 bucket must have server-side encryption configured'']
           MANDATORY reported, None)
      else (reported, None))"

definition iso27001_rds_encryption :: "resource_args \<Rightarrow> violation list \<Rightarrow> pydict \<Rightarrow> outcome" where
  "iso27001_rds_encryption args reported config =
     (if resource_type args = ''aws:rds/instance:Instance'' then
        let props = args_get args ''props'' (PDict []) in
        or_raise (py_get props ''storageEncrypted'' (PBool False)) reported (\<lambda>storage_encrypted.
        if \<not> truthy storage_encrypted then
          (report_violation
             [Lit ''ISO 27001 Compliance: RDS instance storage must be encrypted'']
             MANDATORY reported, None)
        else (reported, None))
      else (reported, None))"

definition pcidss_alb_https_only :: "resource_args \<Rightarrow> violation list \<Rightarrow> pydict \<Rightarrow> outcome" where
  "pcidss_alb_https_only args reported config =
     (if resource_type args = ''aws:lb/listener:Listener'' then
        let props = args_get args ''props'' (PDict []) in
        or_raise (py_get props ''protocol'' (PStr [])) reported (\<lambda>protocol_value.
        or_raise (py_upper protocol_value) reported (\<lambda>protocol.
        if protocol = ''HTTP'' then
          (report_violation
             [Lit ''PCI DSS Compliance: Load balancer listeners must use HTTPS to protect cardholder data'']
             MANDATORY reported, None)
        else (reported, None)))
      else (reported, None))"

definition pcidss_no_default_security_groups :: "resource_args \<Rightarrow> violation list \<Rightarrow> pydict \<Rightarrow> outcome" where
  "pcidss_no_default_security_groups args reported config =
     (if resource_type args = ''aws:ec2/securityGroup:SecurityGroup'' then
        let props = args_get args ''props'' (PDict []) in
        or_raise (py_get props ''name'' (PStr [])) reported (\<lambda>name.
        or_raise (py_lower name) reported (\<lambda>lowered.
        if lowered = ''default'' then
          (report_violation
             [Lit ''PCI DSS Compliance: Default security groups should not be used'']
             MANDATORY reported, None)
        else (reported, None)))
      else (reported, None))"

definition hitrust_cloudtrail_enabled :: "resource_args \<Rightarrow> violation list \<Rightarrow> pydict \<Rightarrow> outcome" where
  "hitrust_cloudtrail_enabled args reported config =
     (if resource_type args = ''aws:cloudtrail/trail:Trail'' then
        let props = args_get args ''props'' (PDict []) in
        or_raise (py_get props ''enableLogging'' (PBool False)) reported (\<lambda>enable_logging.
        if \<not> truthy enable_logging then
          (report_violation
             [Lit ''HITRUST Compliance: CloudTrail logging must be enabled for audit requirements'']
             MANDATORY reported, None)
        else (reported, None))
      else (reported, None))"

definition hitrust_s3_logging_enabled :: "resource_args \<Rightarrow> violation list \<Rightarrow> pydict \<Rightarrow> outcome" where
  "hitrust_s3_logging_enabled args reported config =
     (if resource_type args = ''aws:s3/bucketLoggingV2:BucketLoggingV2'' then (reported, None)
      else (reported, None))"

definition soc2_lambda_environment_encryption :: "resource_args \<Rightarrow> violation list \<Rightarrow> pydict \<Rightarrow> outcome" where
  "soc2_lambda_environment_encryption args reported config =
     (if resource_type args = ''aws:lambda/function:Function'' then
        let props = args_get args ''props'' (PDict []) in
        or_raise (py_get props ''kmsKeyArn'' PNone) reported (\<lambda>kms_key_arn.
        or_raise (py_get props ''environment'' (PDict [])) reported (\<lambda>environment.
        or_raise (py_get environment ''variables'' (PDict [])) reported (\<lambda>variables.
        if truthy variables \<and> \<not> truthy kms_key_arn then
          (report_violation
             [Lit ''SOC 2 Compliance: Lambda environment variables must be encrypted with KMS'']
             MANDATORY reported, None)
        else (reported, None))))
      else (reported, None))"

definition soc2_rds_backup_retention :: "resource_args \<Rightarrow> violation list \<Rightarrow> pydict \<Rightarrow> outcome" where
  "soc2_rds_backup_retention args reported config =
     (if resource_type args = ''aws:rds/instance:Instance'' then
        let props = args_get args ''props'' (PDict []) in
        or_raise (py_get props ''backupRetentionPeriod'' (PInt 0)) reported (\<lambda>retention.
        or_raise (py_lt_int retention 7) reported (\<lambda>too_short.
        if too_short then
          (report_violation
             [Lit ''SOC 2 Compliance: RDS instances must have backup retention period of at least 7 days'']
             MANDATORY reported, None)
        else (reported, None)))
      else (reported, None))"

definition gdpr_s3_versioning_for_data_protection :: "resource_args \<Rightarrow> violation list \<Rightarrow> pydict \<Rightarrow> outcome" where
  "gdpr_s3_versioning_for_data_protection args reported config =
     (if resource_type args = ''aws:s3/bucketVersioningV2:BucketVersioningV2'' then
        let props = args_get args ''props'' (PDict []) in
        or_raise (py_get props ''versioningConfiguration'' (PDict [])) reported (\<lambda>versioning_config.
        or_raise (py_get versioning_config ''status'' PNone) reported (\<lambda>status.
        if \<not> eq_str status ''Enabled'' then
          (report_violation
             [Lit ''GDPR Compliance: S3 bucket versioning must be enabled for data protection and recovery'']
             MANDATORY reported, None)
        else (reported, None)))
      else (reported, None))"

definition gdpr_data_encryption_in_transit :: "resource_args \<Rightarrow> violation list \<Rightarrow> pydict \<Rightarrow> outcome" where
  "gdpr_data_encryption_in_transit args reported config =
     (if resource_type args = ''aws:lb/listener:Listener'' then
        let props = args_get args ''props'' (PDict []) in
        or_raise (py_get props ''protocol'' (PStr [])) reported (\<lambda>protocol_value.
        or_raise (py_upper protocol_value) reported (\<lambda>protocol.
        or_raise (py_get props ''port'' (PInt 80)) reported (\<lambda>port.
        if protocol = ''HTTP'' \<and> \<not> eq_int port 80 then
          (report_violation
             [Lit ''GDPR Compliance: Data transmission must be encrypted (use HTTPS)'']
             MANDATORY reported, None)
        else (reported, None))))
      else (reported, None))"

definition nist_multi_factor_authentication :: "resource_args \<Rightarrow> violation list \<Rightarrow> pydict \<Rightarrow> outcome" where
  "nist_multi_factor_authentication args reported config =
     (if resource_type args = ''aws:iam/user:User'' then
        (report_violation
           [Lit ''NIST Cybersecurity Framework: IAM users should have multi-factor authentication enabled'']
           ADVISORY reported, None)
      else (reported, None))"

fun nist_network_segmentation_loop :: "pyval list \<Rightarrow> violation list \<Rightarrow> outcome" where
  "nist_network_segmentation_loop [] reported = (reported, None)"
| "nist_network_segmentation_loop (rule # rules) reported =
     (case py_get rule ''cidrIpv4'' (PStr []) of
        Inl e \<Rightarrow> (reported, Some e)
      | Inr cidr \<Rightarrow>
          if eq_str cidr ''0.0.0.0/0'' then
            (case py_get rule ''fromPort'' (PInt 0) of
               Inl e \<Rightarrow> (reported, Some e)
             | Inr from_port \<Rightarrow>
            (case py_get rule ''toPort'' (PInt 65535) of
               Inl e \<Rightarrow> (reported, Some e)
             | Inr to_port \<Rightarrow>
                 nist_network_segmentation_loop rules
                   (if eq_int from_port 0 \<and> eq_int to_port 65535 then
                      report_violation
                        [Lit ''NIST Cybersecurity Framework: Network access should be segmented, avoid unrestricted access'']
                        MANDATORY reported
                    else reported)))
          else nist_network_segmentation_loop rules reported)"

definition nist_network_segmentation :: "resource_args \<Rightarrow> violation list \<Rightarrow> pydict \<Rightarrow> outcome" where
  "nist_network_segmentation args reported config =
     (if resource_type args = ''aws:ec2/securityGroup:SecurityGroup'' then
        let props = args_get args ''props'' (PDict []) in
        or_raise (py_get props ''ingressRules'' (PList [])) reported (\<lambda>ingress_rules.
        or_raise (py_iter ingress_rules) reported (\<lambda>items.
        nist_network_segmentation_loop items reported))
      else (reported, None))"

section \<open>Sample documents\<close>

text \<open>
  Two policy documents and two strings that are not JSON, with what \<open>json.loads\<close> gives on
  them: the decoded dictionary, or JSONDecodeError. \<open>sample_loads\<close> stands for \<open>json.loads\<close>
  in the examples below and is looked at on these four strings only.
\<close>

definition wildcard_document :: string where
  \<open>wildcard_document =
     ''{"Version": "2012-10-17", "Statement": [{"Effect": "Allow", "Action": "*", "Resource": "*"}]}''\<close>

definition explicit_document :: string where
  \<open>explicit_document =
     ''{"Version": "2012-10-17", "Statement": [{"Effect": "Allow", "Action": ["s3:GetObject", "s3:PutObject"], "Resource": "*"}]}''\<close>

definition sample_loads :: "string \<Rightarrow> exn + pyval" where
  "sample_loads s =
     (if s = wildcard_document then
        Inr (PDict [(''Version'', PStr ''2012-10-17''),
                    (''Statement'',
                       PList [PDict [(''Effect'', PStr ''Allow''), (''Action'', PStr ''*''),
                                     (''Resource'', PStr ''*'')]])])
      else if s = explicit_document then
        Inr (PDict [(''Version'', PStr ''2012-10-17''),
                    (''Statement'',
                       PList [PDict [(''Effect'', PStr ''Allow''),
                                     (''Action'', PList [PStr ''s3:GetObject'', PStr ''s3:PutObject'']),
                                     (''Resource'', PStr ''*'')]])])
      else Inl JSONDecodeError)"



section \<open>Properties of the compliance rules\<close>

text \<open>
  C9. The S3 access-logging rule is a no-op: on every resource descriptor, of its own
  target type or any other, with any properties and any configuration, it reports
  nothing and does not raise.
\<close>

theorem hitrust_s3_logging_enabled_noop:
  "hitrust_s3_logging_enabled args reported config = (reported, None)"
  by (simp add: hitrust_s3_logging_enabled_def)

text \<open>
  C10. On every resource of the S3 bucket type the ISO 27001 encryption-at-rest rule
  reports exactly one MANDATORY violation, whatever the properties and the
  configuration are: it never looks at them.
\<close>

theorem iso27001_s3_encryption_at_rest_unconditional:
  "resource_type args = ''aws:s3/bucketV2:BucketV2'' \<Longrightarrow>
   iso27001_s3_encryption_at_rest args reported config =
     (reported @
        [([Lit ''ISO 27001 Compliance: S3 bucket must have server-side encryption configured''],
          MANDATORY)],
      None)"
  by (simp add: iso27001_s3_encryption_at_rest_def report_violation_def)

theorem iso27001_s3_encryption_at_rest_unconditional_witness:
  "resource_type
     \<lparr>resource_type = ''aws:s3/bucketV2:BucketV2'',
      entries = [(''props'', PDict [(''serverSideEncryptionConfiguration'', PStr ''AES256'')])]\<rparr>
     = ''aws:s3/bucketV2:BucketV2'' \<and>
   iso27001_s3_encryption_at_rest
     \<lparr>resource_type = ''aws:s3/bucketV2:BucketV2'',
      entries = [(''props'', PDict [(''serverSideEncryptionConfiguration'', PStr ''AES256'')])]\<rparr>
     [] [(''require-encryption'', PBool False)] =
     ([([Lit ''ISO 27001 Compliance: S3 bucket must have server-side encryption configured''],
        MANDATORY)],
      None)"
  using iso27001_s3_encryption_at_rest_unconditional
    [of "\<lparr>resource_type = ''aws:s3/bucketV2:BucketV2'',
          entries = [(''props'', PDict [(''serverSideEncryptionConfiguration'', PStr ''AES256'')])]\<rparr>"
        "[]" "[(''require-encryption'', PBool False)]"]
  by simp

section \<open>Properties of the pack's rules\<close>

text \<open>
  C7. On a resource of the S3 public-access-block type whose props is a mapping: when
  all four block flags are true (or absent, which the rule reads as true) the rule
  reports nothing; when exactly one flag is false it reports exactly one violation,
  whose message names that flag, at the configured enforcement level.
\<close>

theorem s3_bucket_public_access_block_flags:
  "resource_type args = ''aws:s3/bucketPublicAccessBlock:BucketPublicAccessBlock'' \<Longrightarrow>
   args_get args ''props'' (PDict []) = PDict props \<Longrightarrow>
   ((\<forall>flag \<in> {''blockPublicAcls'', ''blockPublicPolicy'', ''ignorePublicAcls'', ''restrictPublicBuckets''}.
        truthy (dict_get props flag (PBool True))) \<longrightarrow>
      s3_bucket_public_access_block args reported config = (reported, None)) \<and>
   (\<forall>flag \<in> {''blockPublicAcls'', ''blockPublicPolicy'', ''ignorePublicAcls'', ''restrictPublicBuckets''}.
      \<not> truthy (dict_get props flag (PBool True)) \<and>
      (\<forall>other \<in> {''blockPublicAcls'', ''blockPublicPolicy'', ''ignorePublicAcls'', ''restrictPublicBuckets''}.
         other \<noteq> flag \<longrightarrow> truthy (dict_get props other (PBool True))) \<longrightarrow>
      s3_bucket_public_access_block args reported config =
        (reported @ [([Lit ''S3 bucket public access block violations: '',
                       Val (PStr (flag @ '' should be true''))],
                      get_enforcement_level config)], None))"
  by (simp add: s3_bucket_public_access_block_def or_raise_def report_violation_def)

theorem s3_bucket_public_access_block_flags_witness:
  "s3_bucket_public_access_block
     \<lparr>resource_type = ''aws:s3/bucketPublicAccessBlock:BucketPublicAccessBlock'',
      entries = [(''props'', PDict [(''blockPublicAcls'', PBool True), (''blockPublicPolicy'', PBool True),
                                   (''ignorePublicAcls'', PBool True), (''restrictPublicBuckets'', PBool True)])]\<rparr>
     [] [] = ([], None) \<and>
   s3_bucket_public_access_block
     \<lparr>resource_type = ''aws:s3/bucketPublicAccessBlock:BucketPublicAccessBlock'',
      entries = [(''props'', PDict [(''blockPublicAcls'', PBool True), (''blockPublicPolicy'', PBool True),
                                   (''ignorePublicAcls'', PBool False), (''restrictPublicBuckets'', PBool True)])]\<rparr>
     [] [(''enforcement-level'', PStr ''advisory'')] =
     ([([Lit ''S3 bucket public access block violations: '', Val (PStr ''ignorePublicAcls should be true'')],
        ADVISORY)], None)"
  using s3_bucket_public_access_block_flags
      [of "\<lparr>resource_type = ''aws:s3/bucketPublicAccessBlock:BucketPublicAccessBlock'',
            entries = [(''props'', PDict [(''blockPublicAcls'', PBool True), (''blockPublicPolicy'', PBool True),
                                         (''ignorePublicAcls'', PBool True), (''restrictPublicBuckets'', PBool True)])]\<rparr>"
          "[(''blockPublicAcls'', PBool True), (''blockPublicPolicy'', PBool True),
            (''ignorePublicAcls'', PBool True), (''restrictPublicBuckets'', PBool True)]" "[]" "[]"]
    s3_bucket_public_access_block_flags
      [of "\<lparr>resource_type = ''aws:s3/bucketPublicAccessBlock:BucketPublicAccessBlock'',
            entries = [(''props'', PDict [(''blockPublicAcls'', PBool True), (''blockPublicPolicy'', PBool True),
                                         (''ignorePublicAcls'', PBool False), (''restrictPublicBuckets'', PBool True)])]\<rparr>"
          "[(''blockPublicAcls'', PBool True), (''blockPublicPolicy'', PBool True),
            (''ignorePublicAcls'', PBool False), (''restrictPublicBuckets'', PBool True)]" "[]"
          "[(''enforcement-level'', PStr ''advisory'')]"]
  by (simp add: args_get_def dict_get_def get_enforcement_level_def)

text \<open>
  C8. With \<open>require-https\<close> false the HTTPS-only rule reports nothing, on any resource,
  whatever the listener's protocol and port. With \<open>require-https\<close> true or absent (true
  is the default), a listener whose protocol is HTTP in any letter case and whose port
  is present and not equal to 80 gets exactly one violation from the rule.
\<close>

theorem alb_listener_https_only_config:
  "(\<not> truthy (dict_get config ''require-https'' (PBool True)) \<longrightarrow>
      alb_listener_https_only args reported config = (reported, None)) \<and>
   (truthy (dict_get config ''require-https'' (PBool True)) \<and>
    resource_type args = ''aws:lb/listener:Listener'' \<and>
    args_get args ''props'' (PDict []) = PDict props \<and>
    dict_get props ''protocol'' (PStr []) = PStr protocol \<and>
    map upper_char protocol = ''HTTP'' \<and>
    dict_get props ''port'' (PInt 80) = port \<and> \<not> eq_int port 80 \<longrightarrow>
      alb_listener_https_only args reported config =
        (reported @
           [([Lit ''Load balancer listener should use HTTPS instead of HTTP on port '', Val port],
             get_enforcement_level config)],
         None))"
  by (simp add: alb_listener_https_only_def or_raise_def report_violation_def)

theorem alb_listener_https_only_config_witness:
  "alb_listener_https_only
     \<lparr>resource_type = ''aws:lb/listener:Listener'',
      entries = [(''props'', PDict [(''protocol'', PStr ''HTTP''), (''port'', PInt 8080)])]\<rparr>
     [] [(''require-https'', PBool False)] = ([], None) \<and>
   alb_listener_https_only
     \<lparr>resource_type = ''aws:lb/listener:Listener'',
      entries = [(''props'', PDict [(''protocol'', PStr ''HTTP''), (''port'', PInt 8080)])]\<rparr>
     [] [] =
     ([([Lit ''Load balancer listener should use HTTPS instead of HTTP on port '', Val (PInt 8080)],
        MANDATORY)],
      None)"
  using alb_listener_https_only_config
      [of "[(''require-https'', PBool False)]"
          "\<lparr>resource_type = ''aws:lb/listener:Listener'',
            entries = [(''props'', PDict [(''protocol'', PStr ''HTTP''), (''port'', PInt 8080)])]\<rparr>"
          "[]" "[(''protocol'', PStr ''HTTP''), (''port'', PInt 8080)]" "''HTTP''" "PInt 8080"]
    alb_listener_https_only_config
      [of "[]"
          "\<lparr>resource_type = ''aws:lb/listener:Listener'',
            entries = [(''props'', PDict [(''protocol'', PStr ''HTTP''), (''port'', PInt 8080)])]\<rparr>"
          "[]" "[(''protocol'', PStr ''HTTP''), (''port'', PInt 8080)]" "''HTTP''" "PInt 8080"]
  by (simp add: args_get_def dict_get_def get_enforcement_level_def upper_char_def)

text \<open>
  C6. Let the configured \<open>max-s3-buckets\<close> be the number N, as an integer or as the float
  of the same value. A stack with exactly N resources of the S3 bucket type gets no
  violation from the bucket-count rule; a stack with N + 1 of them gets exactly one,
  which names both counts.
\<close>

theorem s3_bucket_count_limit_boundary:
  "dict_get config ''max-s3-buckets'' (PInt 5) = limit \<Longrightarrow>
   limit = PInt N \<or> limit = PFloat (Finite (of_int N)) \<Longrightarrow>
   (int (length (filter (\<lambda>r. resource_type r = ''aws:s3/bucketV2:BucketV2'') (resources args))) = N \<longrightarrow>
      s3_bucket_count_limit args reported config = (reported, None)) \<and>
   (int (length (filter (\<lambda>r. resource_type r = ''aws:s3/bucketV2:BucketV2'') (resources args))) = N + 1 \<longrightarrow>
      s3_bucket_count_limit args reported config =
        (reported @
           [([Lit ''Stack contains '', Val (PInt (N + 1)),
              Lit '' S3 buckets, which exceeds the limit of '', Val limit],
             get_enforcement_level config)],
         None))"
  by (auto simp add: s3_bucket_count_limit_def or_raise_def report_violation_def Let_def)

theorem s3_bucket_count_limit_boundary_witness:
  "s3_bucket_count_limit
     \<lparr>resources =
        [\<lparr>resource_type = ''aws:s3/bucketV2:BucketV2'', entries = []\<rparr>,
         \<lparr>resource_type = ''aws:iam/role:Role'', entries = []\<rparr>,
         \<lparr>resource_type = ''aws:s3/bucketV2:BucketV2'', entries = []\<rparr>]\<rparr>
     [] [(''max-s3-buckets'', PInt 2)] = ([], None) \<and>
   s3_bucket_count_limit
     \<lparr>resources =
        [\<lparr>resource_type = ''aws:s3/bucketV2:BucketV2'', entries = []\<rparr>,
         \<lparr>resource_type = ''aws:s3/bucketV2:BucketV2'', entries = []\<rparr>,
         \<lparr>resource_type = ''aws:s3/bucketV2:BucketV2'', entries = []\<rparr>]\<rparr>
     [] [(''max-s3-buckets'', PInt 2)] =
     ([([Lit ''Stack contains '', Val (PInt 3),
         Lit '' S3 buckets, which exceeds the limit of '', Val (PInt 2)],
        MANDATORY)],
      None)"
  using s3_bucket_count_limit_boundary
      [of "[(''max-s3-buckets'', PInt 2)]" "PInt 2" 2
          "\<lparr>resources =
             [\<lparr>resource_type = ''aws:s3/bucketV2:BucketV2'', entries = []\<rparr>,
              \<lparr>resource_type = ''aws:iam/role:Role'', entries = []\<rparr>,
              \<lparr>resource_type = ''aws:s3/bucketV2:BucketV2'', entries = []\<rparr>]\<rparr>" "[]"]
    s3_bucket_count_limit_boundary
      [of "[(''max-s3-buckets'', PInt 2)]" "PInt 2" 2
          "\<lparr>resources =
             [\<lparr>resource_type = ''aws:s3/bucketV2:BucketV2'', entries = []\<rparr>,
              \<lparr>resource_type = ''aws:s3/bucketV2:BucketV2'', entries = []\<rparr>,
              \<lparr>resource_type = ''aws:s3/bucketV2:BucketV2'', entries = []\<rparr>]\<rparr>" "[]"]
  by (simp add: dict_get_def get_enforcement_level_def)

subsection \<open>The wildcard-actions rule\<close>

lemma str_contains_head: "str_contains (c # cs) s \<Longrightarrow> c \<in> set s"
  by (induction s) auto

lemma explicit_actions_unreported:
  "\<forall>name \<in> set names. CHR ''*'' \<notin> set name \<Longrightarrow>
   iam_policy_no_wildcard_actions_actions (map PStr names) reported = reported"
  by (induction names arbitrary: reported) (auto dest: str_contains_head)

text \<open>
  C4. Take a resource of the IAM policy type whose policy property is a non-empty string
  that \<open>json.loads\<close> decodes to a dictionary with exactly one statement (given in a list
  or alone). If the statement's action is the single value \<open>*\<close> (alone or in a list),
  the rule reports exactly one MANDATORY violation, whose message names \<open>*\<close>. If its
  actions are explicit names, none containing the character \<open>*\<close>, the rule reports
  nothing.
\<close>

theorem iam_policy_no_wildcard_actions_boundary:
  "resource_type args = ''aws:iam/policy:Policy'' \<Longrightarrow>
   args_get args ''props'' (PDict []) = PDict props \<Longrightarrow>
   dict_get props ''policy'' PNone = PStr document \<Longrightarrow>
   document \<noteq> [] \<Longrightarrow>
   loads document = Inr (PDict policy) \<Longrightarrow>
   dict_get policy ''Statement'' (PList []) = PList [PDict statement] \<or>
   dict_get policy ''Statement'' (PList []) = PDict statement \<Longrightarrow>
   (dict_get statement ''Action'' (PList []) = PStr ''*'' \<or>
    dict_get statement ''Action'' (PList []) = PList [PStr ''*''] \<longrightarrow>
      iam_policy_no_wildcard_actions loads args reported config =
        (reported @
           [([Lit ''IAM policy contains overly permissive action: '', Val (PStr ''*'')], MANDATORY)],
         None)) \<and>
   ((\<forall>name \<in> set names. CHR ''*'' \<notin> set name) \<and>
    (dict_get statement ''Action'' (PList []) = PList (map PStr names) \<or>
     (\<exists>name. names = [name] \<and> dict_get statement ''Action'' (PList []) = PStr name)) \<longrightarrow>
      iam_policy_no_wildcard_actions loads args reported config = (reported, None))"
  using explicit_actions_unreported [of names reported]
  by (auto simp add: iam_policy_no_wildcard_actions_def or_raise_def report_violation_def)

theorem iam_policy_no_wildcard_actions_boundary_witness:
  "iam_policy_no_wildcard_actions sample_loads
     \<lparr>resource_type = ''aws:iam/policy:Policy'',
      entries = [(''props'', PDict [(''policy'', PStr wildcard_document)])]\<rparr>
     [] [] =
     ([([Lit ''IAM policy contains overly permissive action: '', Val (PStr ''*'')], MANDATORY)], None) \<and>
   iam_policy_no_wildcard_actions sample_loads
     \<lparr>resource_type = ''aws:iam/policy:Policy'',
      entries = [(''props'', PDict [(''policy'', PStr explicit_document)])]\<rparr>
     [] [] = ([], None)"
  using iam_policy_no_wildcard_actions_boundary
      [of "\<lparr>resource_type = ''aws:iam/policy:Policy'',
            entries = [(''props'', PDict [(''policy'', PStr wildcard_document)])]\<rparr>"
          "[(''policy'', PStr wildcard_document)]" wildcard_document sample_loads
          "[(''Version'', PStr ''2012-10-17''),
            (''Statement'',
               PList [PDict [(''Effect'', PStr ''Allow''), (''Action'', PStr ''*''),
                             (''Resource'', PStr ''*'')]])]"
          "[(''Effect'', PStr ''Allow''), (''Action'', PStr ''*''), (''Resource'', PStr ''*'')]"
          "[]" "[]" "[]"]
    iam_policy_no_wildcard_actions_boundary
      [of "\<lparr>resource_type = ''aws:iam/policy:Policy'',
            entries = [(''props'', PDict [(''policy'', PStr explicit_document)])]\<rparr>"
          "[(''policy'', PStr explicit_document)]" explicit_document sample_loads
          "[(''Version'', PStr ''2012-10-17''),
            (''Statement'',
               PList [PDict [(''Effect'', PStr ''Allow''),
                             (''Action'', PList [PStr ''s3:GetObject'', PStr ''s3:PutObject'']),
                             (''Resource'', PStr ''*'')]])]"
          "[(''Effect'', PStr ''Allow''),
            (''Action'', PList [PStr ''s3:GetObject'', PStr ''s3:PutObject'']),
            (''Resource'', PStr ''*'')]"
          "[]" "[]" "[''s3:GetObject'', ''s3:PutObject'']"]
  by (simp add: args_get_def dict_get_def sample_loads_def wildcard_document_def
        explicit_document_def)

text \<open>
  C5, as stated, fails at the empty string: it is a string and not valid JSON, but the
  rule's guard \<open>if policy_doc and isinstance(policy_doc, str)\<close> takes it for an absent
  document, so nothing is reported.
\<close>

theorem iam_policy_empty_document_counterexample:
  "sample_loads [] = Inl JSONDecodeError \<and>
   iam_policy_no_wildcard_actions sample_loads
     \<lparr>resource_type = ''aws:iam/policy:Policy'',
      entries = [(''props'', PDict [(''policy'', PStr [])])]\<rparr>
     [] [] = ([], None)"
  by (simp add: iam_policy_no_wildcard_actions_def or_raise_def args_get_def dict_get_def
        sample_loads_def wildcard_document_def explicit_document_def)

text \<open>
  C5, amended. On a resource of the IAM policy type whose policy property is a non-empty
  string on which \<open>json.loads\<close> raises JSONDecodeError, the rule reports exactly one
  MANDATORY violation, that the document is not valid JSON, and does not raise. On the
  empty string it reports nothing and does not raise.
\<close>

theorem iam_policy_invalid_document:
  "resource_type args = ''aws:iam/policy:Policy'' \<Longrightarrow>
   args_get args ''props'' (PDict []) = PDict props \<Longrightarrow>
   dict_get props ''policy'' PNone = PStr document \<Longrightarrow>
   (document \<noteq> [] \<and> loads document = Inl JSONDecodeError \<longrightarrow>
      iam_policy_no_wildcard_actions loads args reported config =
        (reported @ [([Lit ''IAM policy document is not valid JSON''], MANDATORY)], None)) \<and>
   (document = [] \<longrightarrow>
      iam_policy_no_wildcard_actions loads args reported config = (reported, None))"
  by (simp add: iam_policy_no_wildcard_actions_def or_raise_def report_violation_def)

theorem iam_policy_invalid_document_witness:
  "sample_loads ''{Statement: oops'' = Inl JSONDecodeError \<and>
   iam_policy_no_wildcard_actions sample_loads
     \<lparr>resource_type = ''aws:iam/policy:Policy'',
      entries = [(''props'', PDict [(''policy'', PStr ''{Statement: oops'')])]\<rparr>
     [] [] = ([([Lit ''IAM policy document is not valid JSON''], MANDATORY)], None) \<and>
   iam_policy_no_wildcard_actions sample_loads
     \<lparr>resource_type = ''aws:iam/policy:Policy'',
      entries = [(''props'', PDict [(''policy'', PStr [])])]\<rparr>
     [] [(''enforcement-level'', PStr ''advisory'')] = ([], None)"
  using iam_policy_invalid_document
      [of "\<lparr>resource_type = ''aws:iam/policy:Policy'',
            entries = [(''props'', PDict [(''policy'', PStr ''{Statement: oops'')])]\<rparr>"
          "[(''policy'', PStr ''{Statement: oops'')]" "''{Statement: oops''" sample_loads "[]" "[]"]
    iam_policy_invalid_document
      [of "\<lparr>resource_type = ''aws:iam/policy:Policy'',
            entries = [(''props'', PDict [(''policy'', PStr [])])]\<rparr>"
          "[(''policy'', PStr [])]" "[]" sample_loads "[]" "[(''enforcement-level'', PStr ''advisory'')]"]
  by (simp add: args_get_def dict_get_def sample_loads_def wildcard_document_def
        explicit_document_def)

subsection \<open>Malformed property values\<close>






























subsection \<open>Resources of another type\<close>

text \<open>
  C3. Every resource rule guards on a target resource type: the twelve resource rules of
  the pack and the twelve compliance rules. On a descriptor whose type is not the rule's
  target the rule reports nothing and does not raise, for every content of the
  descriptor's entries (props absent, not a mapping, or holding values of any type) and
  every configuration.
\<close>

theorem unrelated_resource_type_no_violations:
  "(resource_type args \<noteq> ''aws:s3/bucketPublicAccessBlock:BucketPublicAccessBlock'' \<longrightarrow>
      s3_bucket_public_access_block args reported config = (reported, None)) \<and>
   (resource_type args \<noteq> ''aws:s3/bucketVersioningV2:BucketVersioningV2'' \<longrightarrow>
      s3_bucket_versioning_enabled args reported config = (reported, None) \<and>
      gdpr_s3_versioning_for_data_protection args reported config = (reported, None)) \<and>
   (resource_type args \<noteq>
      ''aws:s3/bucketServerSideEncryptionConfigurationV2:BucketServerSideEncryptionConfigurationV2'' \<longrightarrow>
      s3_bucket_encryption_required args reported config = (reported, None)) \<and>
   (resource_type args \<noteq> ''aws:iam/policy:Policy'' \<longrightarrow>
      iam_policy_no_wildcard_actions loads args reported config = (reported, None)) \<and>
   (resource_type args \<noteq> ''aws:iam/role:Role'' \<longrightarrow>
      iam_role_no_inline_policies args reported config = (reported, None)) \<and>
   (resource_type args \<noteq> ''aws:lambda/function:Function'' \<longrightarrow>
      lambda_no_hardcoded_secrets args reported config = (reported, None) \<and>
      lambda_reasonable_timeout args reported config = (reported, None) \<and>
      soc2_lambda_environment_encryption args reported config = (reported, None)) \<and>
   (resource_type args \<noteq> ''aws:lb/listener:Listener'' \<longrightarrow>
      alb_listener_https_only args reported config = (reported, None) \<and>
      pcidss_alb_https_only args reported config = (reported, None) \<and>
      gdpr_data_encryption_in_transit args reported config = (reported, None)) \<and>
   (resource_type args \<noteq> ''aws:ec2/securityGroup:SecurityGroup'' \<longrightarrow>
      security_group_no_unrestricted_ingress args reported config = (reported, None) \<and>
      pcidss_no_default_security_groups args reported config = (reported, None) \<and>
      nist_network_segmentation args reported config = (reported, None)) \<and>
   (resource_type args \<noteq> ''aws:rds/instance:Instance'' \<longrightarrow>
      rds_instance_encrypted_storage args reported config = (reported, None) \<and>
      rds_instance_not_publicly_accessible args reported config = (reported, None) \<and>
      rds_instance_backup_retention args reported config = (reported, None) \<and>
      iso27001_rds_encryption args reported config = (reported, None) \<and>
      soc2_rds_backup_retention args reported config = (reported, None)) \<and>
   (resource_type args \<noteq> ''aws:s3/bucketV2:BucketV2'' \<longrightarrow>
      iso27001_s3_encryption_at_rest args reported config = (reported, None)) \<and>
   (resource_type args \<noteq> ''aws:cloudtrail/trail:Trail'' \<longrightarrow>
      hitrust_cloudtrail_enabled args reported config = (reported, None)) \<and>
   (resource_type args \<noteq> ''aws:s3/bucketLoggingV2:BucketLoggingV2'' \<longrightarrow>
      hitrust_s3_logging_enabled args reported config = (reported, None)) \<and>
   (resource_type args \<noteq> ''aws:iam/user:User'' \<longrightarrow>
      nist_multi_factor_authentication args reported config = (reported, None))"
  by (simp add: s3_bucket_public_access_block_def s3_bucket_versioning_enabled_def
        s3_bucket_encryption_required_def iam_policy_no_wildcard_actions_def
        iam_role_no_inline_policies_def lambda_no_hardcoded_secrets_def
        lambda_reasonable_timeout_def alb_listener_https_only_def
        security_group_no_unrestricted_ingress_def rds_instance_encrypted_storage_def
        rds_instance_not_publicly_accessible_def rds_instance_backup_retention_def
        iso27001_s3_encryption_at_rest_def iso27001_rds_encryption_def
        pcidss_alb_https_only_def pcidss_no_default_security_groups_def
        hitrust_cloudtrail_enabled_def hitrust_s3_logging_enabled_def
        soc2_lambda_environment_encryption_def soc2_rds_backup_retention_def
        gdpr_s3_versioning_for_data_protection_def gdpr_data_encryption_in_transit_def
        nist_multi_factor_authentication_def nist_network_segmentation_def)

theorem unrelated_resource_type_no_violations_witness:
  "s3_bucket_public_access_block
     \<lparr>resource_type = ''aws:dynamodb/table:Table'', entries = [(''props'', PStr ''not a mapping'')]\<rparr>
     [] [] = ([], None) \<and>
   s3_bucket_versioning_enabled
     \<lparr>resource_type = ''aws:dynamodb/table:Table'', entries = [(''props'', PStr ''not a mapping'')]\<rparr>
     [] [] = ([], None) \<and>
   s3_bucket_encryption_required
     \<lparr>resource_type = ''aws:dynamodb/table:Table'', entries = [(''props'', PStr ''not a mapping'')]\<rparr>
     [] [] = ([], None) \<and>
   iam_policy_no_wildcard_actions sample_loads
     \<lparr>resource_type = ''aws:dynamodb/table:Table'', entries = [(''props'', PStr ''not a mapping'')]\<rparr>
     [] [] = ([], None) \<and>
   iam_role_no_inline_policies
     \<lparr>resource_type = ''aws:dynamodb/table:Table'', entries = [(''props'', PStr ''not a mapping'')]\<rparr>
     [] [] = ([], None) \<and>
   lambda_no_hardcoded_secrets
     \<lparr>resource_type = ''aws:dynamodb/table:Table'', entries = [(''props'', PStr ''not a mapping'')]\<rparr>
     [] [] = ([], None) \<and>
   lambda_reasonable_timeout
     \<lparr>resource_type = ''aws:dynamodb/table:Table'', entries = [(''props'', PStr ''not a mapping'')]\<rparr>
     [] [] = ([], None) \<and>
   alb_listener_https_only
     \<lparr>resource_type = ''aws:dynamodb/table:Table'', entries = [(''props'', PStr ''not a mapping'')]\<rparr>
     [] [] = ([], None) \<and>
   security_group_no_unrestricted_ingress
     \<lparr>resource_type = ''aws:dynamodb/table:Table'', entries = [(''props'', PStr ''not a mapping'')]\<rparr>
     [] [] = ([], None) \<and>
   rds_instance_encrypted_storage
     \<lparr>resource_type = ''aws:dynamodb/table:Table'', entries = [(''props'', PStr ''not a mapping'')]\<rparr>
     [] [] = ([], None) \<and>
   rds_instance_not_publicly_accessible
     \<lparr>resource_type = ''aws:dynamodb/table:Table'', entries = [(''props'', PStr ''not a mapping'')]\<rparr>
     [] [] = ([], None) \<and>
   rds_instance_backup_retention
     \<lparr>resource_type = ''aws:dynamodb/table:Table'', entries = [(''props'', PStr ''not a mapping'')]\<rparr>
     [] [] = ([], None) \<and>
   iso27001_s3_encryption_at_rest
     \<lparr>resource_type = ''aws:dynamodb/table:Table'', entries = [(''props'', PStr ''not a mapping'')]\<rparr>
     [] [] = ([], None) \<and>
   iso27001_rds_encryption
     \<lparr>resource_type = ''aws:dynamodb/table:Table'', entries = [(''props'', PStr ''not a mapping'')]\<rparr>
     [] [] = ([], None) \<and>
   pcidss_alb_https_only
     \<lparr>resource_type = ''aws:dynamodb/table:Table'', entries = [(''props'', PStr ''not a mapping'')]\<rparr>
     [] [] = ([], None) \<and>
   pcidss_no_default_security_groups
     \<lparr>resource_type = ''aws:dynamodb/table:Table'', entries = [(''props'', PStr ''not a mapping'')]\<rparr>
     [] [] = ([], None) \<and>
   hitrust_cloudtrail_enabled
     \<lparr>resource_type = ''aws:dynamodb/table:Table'', entries = [(''props'', PStr ''not a mapping'')]\<rparr>
     [] [] = ([], None) \<and>
   hitrust_s3_logging_enabled
     \<lparr>resource_type = ''aws:dynamodb/table:Table'', entries = [(''props'', PStr ''not a mapping'')]\<rparr>
     [] [] = ([], None) \<and>
   soc2_lambda_environment_encryption
     \<lparr>resource_type = ''aws:dynamodb/table:Table'', entries = [(''props'', PStr ''not a mapping'')]\<rparr>
     [] [] = ([], None) \<and>
   soc2_rds_backup_retention
     \<lparr>resource_type = ''aws:dynamodb/table:Table'', entries = [(''props'', PStr ''not a mapping'')]\<rparr>
     [] [] = ([], None) \<and>
   gdpr_s3_versioning_for_data_protection
     \<lparr>resource_type = ''aws:dynamodb/table:Table'', entries = [(''props'', PStr ''not a mapping'')]\<rparr>
     [] [] = ([], None) \<and>
   gdpr_data_encryption_in_transit
     \<lparr>resource_type = ''aws:dynamodb/table:Table'', entries = [(''props'', PStr ''not a mapping'')]\<rparr>
     [] [] = ([], None) \<and>
   nist_multi_factor_authentication
     \<lparr>resource_type = ''aws:dynamodb/table:Table'', entries = [(''props'', PStr ''not a mapping'')]\<rparr>
     [] [] = ([], None) \<and>
   nist_network_segmentation
     \<lparr>resource_type = ''aws:dynamodb/table:Table'', entries = [(''props'', PStr ''not a mapping'')]\<rparr>
     [] [] = ([], None)"
  using unrelated_resource_type_no_violations
      [of "\<lparr>resource_type = ''aws:dynamodb/table:Table'',
            entries = [(''props'', PStr ''not a mapping'')]\<rparr>" "[]" "[]" sample_loads]
  by simp

subsection \<open>What the rules read\<close>

lemma declared_options:
  assumes "\<forall>key \<in> set (map fst config_schema). map_of config' key = map_of config key"
  shows "get_enforcement_level config' = get_enforcement_level config"
    and "dict_get config' ''require-https'' d = dict_get config ''require-https'' d"
    and "dict_get config' ''require-encryption'' d = dict_get config ''require-encryption'' d"
  using assms by (simp_all add: config_schema_def get_enforcement_level_def dict_get_def)

lemma encryption_loop_config:
  "get_enforcement_level config' = get_enforcement_level config \<Longrightarrow>
   s3_bucket_encryption_required_loop rules reported config' =
   s3_bucket_encryption_required_loop rules reported config"
  by (induction rules arbitrary: reported) (simp_all split: sum.splits)

lemma ingress_loop_config:
  "get_enforcement_level config' = get_enforcement_level config \<Longrightarrow>
   security_group_no_unrestricted_ingress_loop rules reported config' =
   security_group_no_unrestricted_ingress_loop rules reported config"
  by (induction rules arbitrary: reported) (simp_all split: sum.splits)

text \<open>
  A resource rule reads the descriptor's type, its props and the configuration options
  that the schema declares, and nothing else: two calls that agree on these have the
  same outcome.
\<close>

lemma rules_read:
  assumes "resource_type args' = resource_type args"
    and "args_get args' ''props'' (PDict []) = args_get args ''props'' (PDict [])"
    and "\<forall>key \<in> set (map fst config_schema). map_of config' key = map_of config key"
  shows "s3_bucket_public_access_block args' reported config' =
         s3_bucket_public_access_block args reported config"
    and "s3_bucket_versioning_enabled args' reported config' =
         s3_bucket_versioning_enabled args reported config"
    and "s3_bucket_encryption_required args' reported config' =
         s3_bucket_encryption_required args reported config"
    and "iam_policy_no_wildcard_actions loads args' reported config' =
         iam_policy_no_wildcard_actions loads args reported config"
    and "iam_role_no_inline_policies args' reported config' =
         iam_role_no_inline_policies args reported config"
    and "lambda_no_hardcoded_secrets args' reported config' =
         lambda_no_hardcoded_secrets args reported config"
    and "lambda_reasonable_timeout args' reported config' =
         lambda_reasonable_timeout args reported config"
    and "alb_listener_https_only args' reported config' =
         alb_listener_https_only args reported config"
    and "security_group_no_unrestricted_ingress args' reported config' =
         security_group_no_unrestricted_ingress args reported config"
    and "rds_instance_encrypted_storage args' reported config' =
         rds_instance_encrypted_storage args reported config"
    and "rds_instance_not_publicly_accessible args' reported config' =
         rds_instance_not_publicly_accessible args reported config"
    and "rds_instance_backup_retention args' reported config' =
         rds_instance_backup_retention args reported config"
proof -
  note options = declared_options [OF assms(3)]
  note loops = encryption_loop_config [OF options(1)] ingress_loop_config [OF options(1)]
  show "s3_bucket_public_access_block args' reported config' =
        s3_bucket_public_access_block args reported config"
    unfolding s3_bucket_public_access_block_def assms(1,2) options ..
  show "s3_bucket_versioning_enabled args' reported config' =
        s3_bucket_versioning_enabled args reported config"
    unfolding s3_bucket_versioning_enabled_def assms(1,2) options ..
  show "s3_bucket_encryption_required args' reported config' =
        s3_bucket_encryption_required args reported config"
    unfolding s3_bucket_encryption_required_def assms(1,2) options loops ..
  show "iam_policy_no_wildcard_actions loads args' reported config' =
        iam_policy_no_wildcard_actions loads args reported config"
    unfolding iam_policy_no_wildcard_actions_def assms(1,2) ..
  show "iam_role_no_inline_policies args' reported config' =
        iam_role_no_inline_policies args reported config"
    unfolding iam_role_no_inline_policies_def assms(1,2) options ..
  show "lambda_no_hardcoded_secrets args' reported config' =
        lambda_no_hardcoded_secrets args reported config"
    unfolding lambda_no_hardcoded_secrets_def assms(1,2) ..
  show "lambda_reasonable_timeout args' reported config' =
        lambda_reasonable_timeout args reported config"
    unfolding lambda_reasonable_timeout_def assms(1,2) options ..
  show "alb_listener_https_only args' reported config' =
        alb_listener_https_only args reported config"
    unfolding alb_listener_https_only_def assms(1,2) options ..
  show "security_group_no_unrestricted_ingress args' reported config' =
        security_group_no_unrestricted_ingress args reported config"
    unfolding security_group_no_unrestricted_ingress_def assms(1,2) loops ..
  show "rds_instance_encrypted_storage args' reported config' =
        rds_instance_encrypted_storage args reported config"
    unfolding rds_instance_encrypted_storage_def assms(1,2) options ..
  show "rds_instance_not_publicly_accessible args' reported config' =
        rds_instance_not_publicly_accessible args reported config"
    unfolding rds_instance_not_publicly_accessible_def assms(1,2) ..
  show "rds_instance_backup_retention args' reported config' =
        rds_instance_backup_retention args reported config"
    unfolding rds_instance_backup_retention_def assms(1,2) options ..
qed

end
